theory Spec2Isabelle
  imports Main "HOL-Library.AList" "HOL-Library.Sublist"
begin

section \<open>JavaScript values and strings\<close>

text \<open>
  The component \<^verbatim>\<open>src/ChatViewer.js\<close> is a React function component over a hosted
  table. Its logic is embedded here function by function. A JavaScript string is the list
  of its code units; \<^typ>\<open>char\<close> covers the code units 0..255, which is the range the
  string helpers below are written for. Values that come out of the backend or out of
  \<^verbatim>\<open>JSON.parse\<close> are \<open>jsval\<close>s; an object is the list of its properties in
  insertion order, with distinct keys.
\<close>

datatype jsval =
    JUndefined
  | JNull
  | JBool bool
  | JNum int
  | JStr string
  | JArr "jsval list"
  | JObj "(string \<times> jsval) list"

text \<open>What the code can throw: a \<^verbatim>\<open>TypeError\<close> on a property read, and the
  \<open>error\<close> of a backend response (lines 66 and 98).\<close>

datatype js_error = TypeError | BackendError

text \<open>\<^verbatim>\<open>v.k\<close>: a \<^verbatim>\<open>TypeError\<close> on \<^verbatim>\<open>null\<close> and \<^verbatim>\<open>undefined\<close>, the property of an
  object, and \<^verbatim>\<open>undefined\<close> where the value has no such property.\<close>

definition get_prop :: "jsval \<Rightarrow> string \<Rightarrow> js_error + jsval" where
  "get_prop v k =
     (case v of
        JUndefined \<Rightarrow> Inl TypeError
      | JNull \<Rightarrow> Inl TypeError
      | JObj kvs \<Rightarrow> Inr (case map_of kvs k of None \<Rightarrow> JUndefined | Some x \<Rightarrow> x)
      | _ \<Rightarrow> Inr JUndefined)"

text \<open>\<^verbatim>\<open>s.substring(a, b)\<close>: the arguments are swapped when \<open>a > b\<close> and clamped to the
  length.\<close>

definition substring :: "string \<Rightarrow> nat \<Rightarrow> nat \<Rightarrow> string" where
  "substring s a b = (let lo = min a b; hi = max a b in take (hi - lo) (drop lo s))"

text \<open>White space and line terminators of ECMAScript among the code units 0..255:
  TAB, LF, VT, FF, CR, SP and NBSP.\<close>

definition is_white_space :: "char \<Rightarrow> bool" where
  "is_white_space c = ((of_char c :: nat) \<in> {9, 10, 11, 12, 13, 32, 160})"

definition trim :: "string \<Rightarrow> string" where
  "trim s = rev (dropWhile is_white_space (rev (dropWhile is_white_space s)))"

text \<open>\<^verbatim>\<open>toLowerCase\<close> on the code units 0..255: A..Z and the capital letters
  U+00C0..U+00DE (the multiplication sign U+00D7 apart) move up by 32.\<close>

definition toLowerCase_char :: "char \<Rightarrow> char" where
  "toLowerCase_char c =
     (let n = (of_char c :: nat)
      in if (65 \<le> n \<and> n \<le> 90) \<or> (192 \<le> n \<and> n \<le> 222 \<and> n \<noteq> 215)
         then char_of (n + 32) else c)"

definition toLowerCase :: "string \<Rightarrow> string" where
  "toLowerCase s = map toLowerCase_char s"


section \<open>Data model\<close>

text \<open>A row of the table \<^verbatim>\<open>zest_chat\<close>. \<open>row_created_at\<close> is the instant that
  \<^verbatim>\<open>new Date(row.created_at)\<close> denotes, in milliseconds; \<open>row_display_name\<close> is
  \<open>None\<close> for \<^verbatim>\<open>null\<close>; \<open>row_message\<close> is a JSON text (\<open>JStr\<close>) or a structured
  value.\<close>

record chat_row =
  row_id :: jsval
  row_session_id :: string
  row_created_at :: int
  row_display_name :: "string option"
  row_message :: jsval

text \<open>The object built at lines 73-77, one per session.\<close>

record conversation =
  session_id :: string
  created_at :: int
  display_name :: string

text \<open>The object built at lines 108-113, one per row of a thread.\<close>

record message =
  msg_id :: jsval
  msg_type :: jsval
  msg_content :: jsval
  msg_timestamp :: int

text \<open>An array held in React state: \<open>ref\<close> is the identity of the array object (React
  compares states with \<^verbatim>\<open>Object.is\<close>), \<open>elems\<close> its contents.\<close>

record msg_array =
  ref :: nat
  elems :: "message list"

section \<open>Conversation index (\<^verbatim>\<open>loadConversations\<close>, lines 59-88)\<close>

text \<open>Line 76: \<^verbatim>\<open>row.display_name || `Conversation ${sessionId.substring(0, 8)}...`\<close>;
  \<^verbatim>\<open>null\<close> and the empty string are falsy.\<close>

definition synthesized_label :: "string \<Rightarrow> string" where
  "synthesized_label sessionId = ''Conversation '' @ substring sessionId 0 8 @ ''...''"

definition display_name_or_label :: "chat_row \<Rightarrow> string" where
  "display_name_or_label row =
     (case row_display_name row of
        None \<Rightarrow> synthesized_label (row_session_id row)
      | Some n \<Rightarrow> if n = [] then synthesized_label (row_session_id row) else n)"

definition conversation_of_row :: "chat_row \<Rightarrow> conversation" where
  "conversation_of_row row =
     \<lparr>session_id = row_session_id row,
      created_at = row_created_at row,
      display_name = display_name_or_label row\<rparr>"

text \<open>The body of the \<^verbatim>\<open>forEach\<close> at lines 70-79. The \<^verbatim>\<open>Map\<close> is an association
  list in insertion order: \<^verbatim>\<open>set\<close> on a present key replaces the value where it stands, on
  an absent key appends, which is \<^const>\<open>AList.update\<close>.\<close>

definition index_step ::
  "(string \<times> conversation) list \<Rightarrow> chat_row \<Rightarrow> (string \<times> conversation) list" where
  "index_step sessionsMap row =
     (let sessionId = row_session_id row
      in if (case map_of sessionsMap sessionId of
               None \<Rightarrow> True
             | Some c \<Rightarrow> row_created_at row > created_at c)
         then AList.update sessionId (conversation_of_row row) sessionsMap
         else sessionsMap)"

definition sessionsMap :: "chat_row list \<Rightarrow> (string \<times> conversation) list" where
  "sessionsMap data = foldl index_step [] data"

text \<open>Line 81: \<^verbatim>\<open>Array.from(sessionsMap.values())\<close>.\<close>

definition newConversations :: "chat_row list \<Rightarrow> conversation list" where
  "newConversations data = map snd (sessionsMap data)"

text \<open>The rows of one session, and the row the grouping keeps for it: the first row, in
  the order delivered, whose \<open>created_at\<close> no later row of the session exceeds
  strictly.\<close>

definition session_rows :: "string \<Rightarrow> chat_row list \<Rightarrow> chat_row list" where
  "session_rows k data = filter (\<lambda>r. row_session_id r = k) data"

definition keep_later :: "chat_row option \<Rightarrow> chat_row \<Rightarrow> chat_row option" where
  "keep_later best r =
     (case best of
        None \<Rightarrow> Some r
      | Some b \<Rightarrow> if row_created_at r > row_created_at b then Some r else Some b)"

definition kept_row :: "string \<Rightarrow> chat_row list \<Rightarrow> chat_row option" where
  "kept_row k data = foldl keep_later None (session_rows k data)"

section \<open>Message thread loader (\<^verbatim>\<open>loadMessages\<close>, lines 90-129)\<close>

text \<open>\<^verbatim>\<open>JSON.parse\<close> and \<^verbatim>\<open>JSON.stringify\<close> are the platform's: they are the
  parameters \<open>json_parse\<close> (\<open>None\<close> where it throws) and \<open>json_stringify\<close>.\<close>

definition placeholder :: jsval where
  "placeholder = JObj [(''type'', JStr ''unknown''), (''content'', JStr ''Message non parsable'')]"

text \<open>Lines 101-106: the \<^verbatim>\<open>try\<close> holds the \<^verbatim>\<open>JSON.parse\<close> only.\<close>

definition parsedMessage :: "(string \<Rightarrow> jsval option) \<Rightarrow> jsval \<Rightarrow> jsval" where
  "parsedMessage json_parse m =
     (case m of
        JStr s \<Rightarrow> (case json_parse s of None \<Rightarrow> placeholder | Some v \<Rightarrow> v)
      | _ \<Rightarrow> m)"

text \<open>Decoding the payload of a row fails where \<^verbatim>\<open>JSON.parse\<close> is called and
  throws.\<close>

definition decode_fails :: "(string \<Rightarrow> jsval option) \<Rightarrow> chat_row \<Rightarrow> bool" where
  "decode_fails json_parse row =
     (case row_message row of JStr s \<Rightarrow> json_parse s = None | _ \<Rightarrow> False)"

text \<open>Lines 100-114, the callback of \<^verbatim>\<open>data.map\<close>: the property reads at lines 110-111
  stand outside the inner \<^verbatim>\<open>try\<close>.\<close>

definition message_of_row :: "(string \<Rightarrow> jsval option) \<Rightarrow> chat_row \<Rightarrow> js_error + message" where
  "message_of_row json_parse row =
     (let pm = parsedMessage json_parse (row_message row)
      in case get_prop pm ''type'' of
           Inl e \<Rightarrow> Inl e
         | Inr t \<Rightarrow>
             (case get_prop pm ''content'' of
                Inl e \<Rightarrow> Inl e
              | Inr c \<Rightarrow>
                  Inr \<lparr>msg_id = row_id row, msg_type = t, msg_content = c,
                       msg_timestamp = row_created_at row\<rparr>))"

text \<open>\<^verbatim>\<open>Array.prototype.map\<close> with a callback that may throw: the first exception leaves
  the loop.\<close>

fun map_throwing :: "('a \<Rightarrow> js_error + 'b) \<Rightarrow> 'a list \<Rightarrow> js_error + 'b list" where
  "map_throwing f [] = Inr []"
| "map_throwing f (x # xs) =
     (case f x of
        Inl e \<Rightarrow> Inl e
      | Inr y \<Rightarrow> (case map_throwing f xs of Inl e \<Rightarrow> Inl e | Inr ys \<Rightarrow> Inr (y # ys)))"

definition parsedMessages :: "(string \<Rightarrow> jsval option) \<Rightarrow> chat_row list \<Rightarrow> js_error + message list" where
  "parsedMessages json_parse data = map_throwing (message_of_row json_parse) data"

text \<open>Lines 117-125, the updater given to \<^verbatim>\<open>setMessages\<close>.\<close>

definition setMessages_updater :: "(message list \<Rightarrow> string) \<Rightarrow> msg_array \<Rightarrow> msg_array \<Rightarrow> msg_array" where
  "setMessages_updater json_stringify parsedMessages_arr prevMessages =
     (let newMessagesString = json_stringify (elems parsedMessages_arr);
          prevMessagesString = json_stringify (elems prevMessages)
      in if newMessagesString \<noteq> prevMessagesString then parsedMessages_arr else prevMessages)"

section \<open>The component's state and handlers\<close>

datatype notice = SaveNameFailed

datatype update_outcome = Updated | Rejected | Threw

text \<open>
  The seven \<^verbatim>\<open>useState\<close> cells of lines 18-24, and what surrounds them:
  \<^item> \<open>thread_interval\<close>: the session id captured by the live \<^verbatim>\<open>setInterval\<close> of the
    effect at lines 40-48, if there is one;
  \<^item> \<open>in_flight\<close>: the session ids of the \<^verbatim>\<open>loadMessages\<close> calls that await the backend;
  \<^item> \<open>next_ref\<close>: the identity of the next array \<^verbatim>\<open>data.map\<close> allocates;
  \<^item> \<open>pending_updates\<close>: the \<^verbatim>\<open>handleRenameSubmit\<close> calls that await the backend, each
    with the \<open>editingSession\<close>, the trimmed name and the \<open>selectedConversation\<close> of the
    render whose handler was called;
  \<^item> \<open>table\<close>: the rows of \<^verbatim>\<open>zest_chat\<close>, written only by the update at lines 155-158;
  \<^item> \<open>alerts\<close>: the notices shown by \<^verbatim>\<open>alert\<close>.
\<close>

record app_state =
  conversations :: "conversation list"
  selectedConversation :: "conversation option"
  messages :: msg_array
  loading :: bool
  searchTerm :: string
  editingSession :: "string option"
  newSessionName :: string
  thread_interval :: "string option"
  in_flight :: "string list"
  next_ref :: nat
  pending_updates :: "(string option \<times> string \<times> conversation option) list"
  table :: "chat_row list"
  alerts :: "notice list"

definition initial_state :: "chat_row list \<Rightarrow> app_state" where
  "initial_state rows =
     \<lparr>conversations = [], selectedConversation = None,
      messages = \<lparr>ref = 0, elems = []\<rparr>, loading = True, searchTerm = [],
      editingSession = None, newSessionName = [], thread_interval = None,
      in_flight = [], next_ref = 1, pending_updates = [], table = rows, alerts = []\<rparr>"

text \<open>\<^verbatim>\<open>loadConversations\<close> after the \<^verbatim>\<open>await\<close>: the response of the query at lines
  61-64 is an error (thrown at line 66, logged by the \<^verbatim>\<open>catch\<close>) or the rows.\<close>

definition loadConversations :: "js_error + chat_row list \<Rightarrow> app_state \<Rightarrow> app_state" where
  "loadConversations response st =
     (case response of
        Inl e \<Rightarrow> st\<lparr>loading := False\<rparr>
      | Inr data \<Rightarrow> st\<lparr>conversations := newConversations data, loading := False\<rparr>)"

text \<open>The effect at lines 40-48 runs when \<open>selectedConversation\<close> is set to another
  object: its cleanup clears the previous interval, then an interval is started for the
  session of the new selection.\<close>

definition selection_effect :: "app_state \<Rightarrow> app_state" where
  "selection_effect st = st\<lparr>thread_interval := map_option session_id (selectedConversation st)\<rparr>"

text \<open>\<^verbatim>\<open>loadMessages(sessionId)\<close> up to its \<^verbatim>\<open>await\<close> (the query at lines 92-96 is sent),
  and from there on, with the response. Nothing after the \<^verbatim>\<open>await\<close> reads
  \<open>sessionId\<close> or the selection.\<close>

definition loadMessages_call :: "string \<Rightarrow> app_state \<Rightarrow> app_state" where
  "loadMessages_call sessionId st = st\<lparr>in_flight := in_flight st @ [sessionId]\<rparr>"

definition loadMessages_resume ::
  "(string \<Rightarrow> jsval option) \<Rightarrow> (message list \<Rightarrow> string) \<Rightarrow> js_error + chat_row list
     \<Rightarrow> app_state \<Rightarrow> app_state" where
  "loadMessages_resume json_parse json_stringify response st =
     (case response of
        Inl e \<Rightarrow> st
      | Inr data \<Rightarrow>
          (case parsedMessages json_parse data of
             Inl e \<Rightarrow> st
           | Inr ms \<Rightarrow>
               st\<lparr>messages :=
                     setMessages_updater json_stringify \<lparr>ref = next_ref st, elems = ms\<rparr> (messages st),
                   next_ref := Suc (next_ref st)\<rparr>))"

definition handleConversationClick :: "conversation \<Rightarrow> app_state \<Rightarrow> app_state" where
  "handleConversationClick conversation st =
     selection_effect
       (loadMessages_call (session_id conversation)
          (st\<lparr>selectedConversation := Some conversation\<rparr>))"

definition interval_tick :: "app_state \<Rightarrow> app_state" where
  "interval_tick st =
     (case thread_interval st of None \<Rightarrow> st | Some sessionId \<Rightarrow> loadMessages_call sessionId st)"

text \<open>Lines 146-150.\<close>

definition handleRenameStart :: "conversation \<Rightarrow> app_state \<Rightarrow> app_state" where
  "handleRenameStart conversation st =
     st\<lparr>editingSession := Some (session_id conversation),
        newSessionName := display_name conversation\<rparr>"

text \<open>Lines 152-169: the backend sets \<open>display_name\<close> on the rows whose \<open>session_id\<close> is
  the one asked for, and \<^verbatim>\<open>updateDisplayNameInDatabase\<close> returns whether it did.\<close>

definition apply_update :: "string option \<Rightarrow> string \<Rightarrow> chat_row list \<Rightarrow> chat_row list" where
  "apply_update sessionId newName rows =
     map (\<lambda>r. if Some (row_session_id r) = sessionId
               then r\<lparr>row_display_name := Some newName\<rparr> else r) rows"

definition updateDisplayNameInDatabase :: "update_outcome \<Rightarrow> bool" where
  "updateDisplayNameInDatabase outcome =
     (case outcome of Updated \<Rightarrow> True | Rejected \<Rightarrow> False | Threw \<Rightarrow> False)"

text \<open>\<^verbatim>\<open>handleRenameSubmit\<close>, lines 171-180, up to its \<^verbatim>\<open>await\<close>.\<close>

definition handleRenameSubmit_call :: "app_state \<Rightarrow> app_state" where
  "handleRenameSubmit_call st =
     (if trim (newSessionName st) = []
      then st\<lparr>editingSession := None\<rparr>
      else st\<lparr>pending_updates := pending_updates st @
                 [(editingSession st, trim (newSessionName st), selectedConversation st)]\<rparr>)"

text \<open>\<^verbatim>\<open>handleRenameSubmit\<close>, lines 180-203, from the \<^verbatim>\<open>await\<close> on. The handler reads
  \<open>editingSession\<close>, \<open>newSessionName\<close> and \<open>selectedConversation\<close> of the render it
  belongs to (the triple), while the two updaters run on the state of the moment. The
  updater of line 192 runs only where the selection is an object, and no handler ever
  sets the selection back to \<^verbatim>\<open>null\<close>.\<close>

definition handleRenameSubmit_resume ::
  "string option \<times> string \<times> conversation option \<Rightarrow> update_outcome \<Rightarrow> app_state \<Rightarrow> app_state" where
  "handleRenameSubmit_resume closure outcome st =
     (case closure of (editing, newName, selected) \<Rightarrow>
        (let st0 = (if outcome = Updated
                    then st\<lparr>table := apply_update editing newName (table st)\<rparr> else st);
             success = updateDisplayNameInDatabase outcome;
             st1 =
               (if success
                then (let st2 = st0\<lparr>conversations :=
                                       map (\<lambda>conv. if Some (session_id conv) = editing
                                                    then conv\<lparr>display_name := newName\<rparr> else conv)
                                           (conversations st0)\<rparr>
                      in if (case selected of
                               None \<Rightarrow> False
                             | Some sc \<Rightarrow> Some (session_id sc) = editing)
                         then selection_effect
                                (st2\<lparr>selectedConversation :=
                                       map_option (\<lambda>prev. prev\<lparr>display_name := newName\<rparr>)
                                                  (selectedConversation st2)\<rparr>)
                         else st2)
                else st0\<lparr>alerts := alerts st0 @ [SaveNameFailed]\<rparr>)
         in st1\<lparr>editingSession := None, newSessionName := []\<rparr>))"

text \<open>Lines 205-208.\<close>

definition handleRenameCancel :: "app_state \<Rightarrow> app_state" where
  "handleRenameCancel st = st\<lparr>editingSession := None, newSessionName := []\<rparr>"







subsection \<open>Events\<close>

text \<open>What can happen to the mounted component: a response of the index query, a click
  on a conversation, a tick of the thread interval, the response to the \<open>i\<close>-th thread
  query in flight, typing in the search box, the rename button, typing in the edit box,
  Enter in the edit box, the backend's answer to the \<open>i\<close>-th pending update, and Escape
  or blur.\<close>

datatype event =
    ConversationsResponse "js_error + chat_row list"
  | ConversationClick conversation
  | IntervalTick
  | MessagesResponse nat "js_error + chat_row list"
  | SearchInput string
  | RenameStart conversation
  | NameInput string
  | RenameSubmit
  | UpdateResponse nat update_outcome
  | RenameCancel

definition remove_nth :: "nat \<Rightarrow> 'a list \<Rightarrow> 'a list" where
  "remove_nth i xs = take i xs @ drop (Suc i) xs"

definition messages_response ::
  "(string \<Rightarrow> jsval option) \<Rightarrow> (message list \<Rightarrow> string) \<Rightarrow> nat \<Rightarrow> js_error + chat_row list
     \<Rightarrow> app_state \<Rightarrow> app_state" where
  "messages_response json_parse json_stringify i response st =
     (if i < length (in_flight st)
      then loadMessages_resume json_parse json_stringify response
             (st\<lparr>in_flight := remove_nth i (in_flight st)\<rparr>)
      else st)"

definition update_response :: "nat \<Rightarrow> update_outcome \<Rightarrow> app_state \<Rightarrow> app_state" where
  "update_response i outcome st =
     (if i < length (pending_updates st)
      then handleRenameSubmit_resume (pending_updates st ! i) outcome
             (st\<lparr>pending_updates := remove_nth i (pending_updates st)\<rparr>)
      else st)"

fun step ::
  "(string \<Rightarrow> jsval option) \<Rightarrow> (message list \<Rightarrow> string) \<Rightarrow> app_state \<Rightarrow> event \<Rightarrow> app_state" where
  "step json_parse json_stringify st (ConversationsResponse response) = loadConversations response st"
| "step json_parse json_stringify st (ConversationClick conversation) =
     handleConversationClick conversation st"
| "step json_parse json_stringify st IntervalTick = interval_tick st"
| "step json_parse json_stringify st (MessagesResponse i response) =
     messages_response json_parse json_stringify i response st"
| "step json_parse json_stringify st (SearchInput t) = st\<lparr>searchTerm := t\<rparr>"
| "step json_parse json_stringify st (RenameStart conversation) = handleRenameStart conversation st"
| "step json_parse json_stringify st (NameInput t) = st\<lparr>newSessionName := t\<rparr>"
| "step json_parse json_stringify st RenameSubmit = handleRenameSubmit_call st"
| "step json_parse json_stringify st (UpdateResponse i outcome) = update_response i outcome st"
| "step json_parse json_stringify st RenameCancel = handleRenameCancel st"

definition run ::
  "(string \<Rightarrow> jsval option) \<Rightarrow> (message list \<Rightarrow> string) \<Rightarrow> app_state \<Rightarrow> event list \<Rightarrow> app_state" where
  "run json_parse json_stringify st evs = foldl (step json_parse json_stringify) st evs"

text \<open>A rename submission whose backend answer comes before any other event:
  \<^verbatim>\<open>handleRenameSubmit\<close> from line 171 to line 203.\<close>

definition handleRenameSubmit :: "update_outcome \<Rightarrow> app_state \<Rightarrow> app_state" where
  "handleRenameSubmit outcome st =
     (if trim (newSessionName st) = []
      then handleRenameSubmit_call st
      else update_response (length (pending_updates st)) outcome (handleRenameSubmit_call st))"

subsection \<open>A serializer for the examples\<close>

text \<open>Where an example needs a concrete \<open>json_stringify\<close>, it takes
  \<open>stringify_messages\<close>: the JSON text of an array of messages whose values are built
  from \<^verbatim>\<open>null\<close>, booleans, integers, arrays, objects and strings without control
  characters. A property whose value is \<^verbatim>\<open>undefined\<close> is left out, an array element
  that is \<^verbatim>\<open>undefined\<close> is written \<^verbatim>\<open>null\<close>.\<close>

fun digits :: "nat \<Rightarrow> string" where
  "digits n =
     (if n < 10 then [char_of (48 + n)] else digits (n div 10) @ [char_of (48 + n mod 10)])"

definition show_int :: "int \<Rightarrow> string" where
  "show_int i = (if i < 0 then CHR ''-'' # digits (nat (- i)) else digits (nat i))"

definition quote :: "string \<Rightarrow> string" where
  "quote s =
     [CHR 0x22] @
     concat (map (\<lambda>c. if c = CHR 0x22 \<or> c = CHR 0x5C then [CHR 0x5C, c] else [c]) s) @
     [CHR 0x22]"

fun commas :: "string list \<Rightarrow> string" where
  "commas [] = []"
| "commas [x] = x"
| "commas (x # y # ys) = x @ '','' @ commas (y # ys)"

fun stringify_val :: "jsval \<Rightarrow> string" where
  "stringify_val JUndefined = ''null''"
| "stringify_val JNull = ''null''"
| "stringify_val (JBool b) = (if b then ''true'' else ''false'')"
| "stringify_val (JNum i) = show_int i"
| "stringify_val (JStr s) = quote s"
| "stringify_val (JArr vs) = ''['' @ commas (map stringify_val vs) @ '']''"
| "stringify_val (JObj kvs) =
     ''{'' @ commas (map (\<lambda>kv. quote (fst kv) @ '':'' @ stringify_val (snd kv))
                       (filter (\<lambda>kv. snd kv \<noteq> JUndefined) kvs)) @ ''}''"

definition stringify_messages :: "message list \<Rightarrow> string" where
  "stringify_messages ms =
     stringify_val
       (JArr (map (\<lambda>m. JObj [(''id'', msg_id m), (''type'', msg_type m),
                             (''content'', msg_content m),
                             (''timestamp'', JNum (msg_timestamp m))]) ms))"

subsection \<open>Example data\<close>

text \<open>\<^verbatim>\<open>JSON.parse\<close> on the two texts of the examples: \<^verbatim>\<open>null\<close>, and a text that is
  not JSON.\<close>

definition example_json_parse :: "string \<Rightarrow> jsval option" where
  "example_json_parse s = (if s = ''null'' then Some JNull else None)"

text \<open>Three rows of two sessions, in the order of the query at lines 61-64 (latest
  first); the payload of the second is not JSON.\<close>

definition example_rows :: "chat_row list" where
  "example_rows =
     [\<lparr>row_id = JNum 3, row_session_id = ''abc123456789'', row_created_at = 30,
       row_display_name = Some ''Support'',
       row_message = JObj [(''type'', JStr ''ai''), (''content'', JStr ''Hello'')]\<rparr>,
      \<lparr>row_id = JNum 2, row_session_id = ''xyz987654321'', row_created_at = 20,
       row_display_name = None, row_message = JStr ''{not json''\<rparr>,
      \<lparr>row_id = JNum 1, row_session_id = ''abc123456789'', row_created_at = 10,
       row_display_name = None,
       row_message = JObj [(''type'', JStr ''human''), (''content'', JStr ''Hi'')]\<rparr>]"

text \<open>The thread of the first session as the query at lines 92-96 delivers it (oldest
  first), here with a payload that is not JSON in the middle, and the messages
  \<^verbatim>\<open>loadMessages\<close> makes of it.\<close>

definition example_thread :: "chat_row list" where
  "example_thread =
     [\<lparr>row_id = JNum 1, row_session_id = ''abc123456789'', row_created_at = 10,
       row_display_name = None,
       row_message = JObj [(''type'', JStr ''human''), (''content'', JStr ''Hi'')]\<rparr>,
      \<lparr>row_id = JNum 4, row_session_id = ''abc123456789'', row_created_at = 20,
       row_display_name = None, row_message = JStr ''{not json''\<rparr>,
      \<lparr>row_id = JNum 3, row_session_id = ''abc123456789'', row_created_at = 30,
       row_display_name = Some ''Support'',
       row_message = JObj [(''type'', JStr ''ai''), (''content'', JStr ''Hello'')]\<rparr>]"

definition example_messages :: "message list" where
  "example_messages =
     [\<lparr>msg_id = JNum 1, msg_type = JStr ''human'', msg_content = JStr ''Hi'',
       msg_timestamp = 10\<rparr>,
      \<lparr>msg_id = JNum 4, msg_type = JStr ''unknown'',
       msg_content = JStr ''Message non parsable'', msg_timestamp = 20\<rparr>,
      \<lparr>msg_id = JNum 3, msg_type = JStr ''ai'', msg_content = JStr ''Hello'',
       msg_timestamp = 30\<rparr>]"

text \<open>A session that was named, and then received a row that carries no name.\<close>

definition example_rows_unnamed_latest :: "chat_row list" where
  "example_rows_unnamed_latest =
     [\<lparr>row_id = JNum 2, row_session_id = ''abc123456789'', row_created_at = 20,
       row_display_name = None,
       row_message = JObj [(''type'', JStr ''ai''), (''content'', JStr ''Hello'')]\<rparr>,
      \<lparr>row_id = JNum 1, row_session_id = ''abc123456789'', row_created_at = 10,
       row_display_name = Some ''Support'',
       row_message = JObj [(''type'', JStr ''human''), (''content'', JStr ''Hi'')]\<rparr>]"

definition example_conversation :: conversation where
  "example_conversation =
     \<lparr>session_id = ''abc123456789'', created_at = 30, display_name = ''Support''\<rparr>"

definition example_conversation_unnamed :: conversation where
  "example_conversation_unnamed =
     \<lparr>session_id = ''xyz987654321'', created_at = 20,
      display_name = ''Conversation xyz98765...''\<rparr>"

text \<open>The component after the example thread was loaded once.\<close>

definition example_state_loaded :: app_state where
  "example_state_loaded =
     loadMessages_resume example_json_parse stringify_messages (Inr example_thread)
       (initial_state example_rows)"

text \<open>The component with the index of \<open>example_rows\<close> loaded, the first
  conversation selected and its rename started, the draft typed with blanks around it.\<close>

definition example_state_editing :: app_state where
  "example_state_editing =
     \<lparr>conversations = [example_conversation, example_conversation_unnamed],
      selectedConversation = Some example_conversation,
      messages = \<lparr>ref = 0, elems = []\<rparr>, loading = False, searchTerm = [],
      editingSession = Some ''abc123456789'', newSessionName = '' Billing '',
      thread_interval = Some ''abc123456789'', in_flight = [''abc123456789''],
      next_ref = 1, pending_updates = [], table = example_rows, alerts = []\<rparr>"

text \<open>The component after the index was loaded and the two conversations were
  clicked one after the other, before any thread query was answered.\<close>

definition example_state_reselected :: app_state where
  "example_state_reselected =
     run example_json_parse stringify_messages (initial_state example_rows)
       [ConversationsResponse (Inr example_rows),
        ConversationClick example_conversation,
        ConversationClick example_conversation_unnamed]"

text \<open>A thread of two rows: a payload that is not JSON, then the JSON text
  \<^verbatim>\<open>null\<close>.\<close>

definition example_thread_null_payload :: "chat_row list" where
  "example_thread_null_payload =
     [\<lparr>row_id = JNum 1, row_session_id = ''abc123456789'', row_created_at = 10,
       row_display_name = None, row_message = JStr ''{not json''\<rparr>,
      \<lparr>row_id = JNum 2, row_session_id = ''abc123456789'', row_created_at = 20,
       row_display_name = None, row_message = JStr ''null''\<rparr>]"

text \<open>From \<open>example_state_editing\<close> (the first conversation selected and being
  renamed): Enter, then a click on the second conversation, which takes the focus from
  the edit box first, all before the backend has answered the update.\<close>

definition example_state_renaming_reselected :: app_state where
  "example_state_renaming_reselected =
     run example_json_parse stringify_messages example_state_editing
       [RenameSubmit, RenameCancel, ConversationClick example_conversation_unnamed]"

text \<open>The other way round: the second conversation is selected while the first is
  renamed; Enter, then a click on the first conversation before the backend has
  answered.\<close>

definition example_state_renaming_selected_late :: app_state where
  "example_state_renaming_selected_late =
     run example_json_parse stringify_messages (initial_state example_rows)
       [ConversationsResponse (Inr example_rows),
        ConversationClick example_conversation_unnamed,
        RenameStart example_conversation, NameInput '' Billing '',
        RenameSubmit, RenameCancel, ConversationClick example_conversation]"

section \<open>Properties of the conversation index\<close>

lemmas index_eval =
  newConversations_def sessionsMap_def index_step_def conversation_of_row_def
  display_name_or_label_def synthesized_label_def substring_def Let_def

lemma map_of_index_step:
  "map_of (index_step m r) k =
     (if row_session_id r = k
      then (case map_of m k of
              None \<Rightarrow> Some (conversation_of_row r)
            | Some c \<Rightarrow> if row_created_at r > created_at c
                        then Some (conversation_of_row r) else Some c)
      else map_of m k)"
  by (auto simp: index_step_def Let_def AList.update_conv' split: option.splits)

lemma newConversations_example_rows:
  "newConversations example_rows = [example_conversation, example_conversation_unnamed]"
  by (simp add: index_eval example_rows_def example_conversation_def
      example_conversation_unnamed_def)

lemma conversation_of_row_simps [simp]:
  "created_at (conversation_of_row r) = row_created_at r"
  "session_id (conversation_of_row r) = row_session_id r"
  "display_name (conversation_of_row r) = display_name_or_label r"
  by (simp_all add: conversation_of_row_def)

lemma map_of_foldl_index_step:
  "map_of m k = map_option conversation_of_row best \<Longrightarrow>
   map_of (foldl index_step m data) k =
     map_option conversation_of_row (foldl keep_later best (session_rows k data))"
proof (induction data arbitrary: m best)
  case Nil
  then show ?case by (simp add: session_rows_def)
next
  case (Cons r data)
  have "map_of (index_step m r) k =
          map_option conversation_of_row (if row_session_id r = k then keep_later best r else best)"
    using Cons.prems by (cases best) (auto simp: map_of_index_step keep_later_def)
  from Cons.IH [OF this] show ?case by (simp add: session_rows_def)
qed

lemma map_of_sessionsMap:
  "map_of (sessionsMap data) k = map_option conversation_of_row (kept_row k data)"
  unfolding sessionsMap_def kept_row_def by (rule map_of_foldl_index_step) simp

lemma distinct_index_step: "distinct (map fst m) \<Longrightarrow> distinct (map fst (index_step m r))"
  by (simp add: index_step_def Let_def AList.distinct_update)

lemma distinct_foldl_index_step:
  "distinct (map fst m) \<Longrightarrow> distinct (map fst (foldl index_step m data))"
  by (induction data arbitrary: m) (simp_all add: distinct_index_step)

lemma distinct_sessionsMap: "distinct (map fst (sessionsMap data))"
  unfolding sessionsMap_def by (rule distinct_foldl_index_step) simp

lemma Max_insert_absorb:
  "finite A \<Longrightarrow> y \<in> A \<Longrightarrow> (x::int) \<le> y \<Longrightarrow> Max (insert x A) = Max A"
  by (metis Max_ge Max_insert empty_iff max.absorb2 order_trans)

lemma foldl_keep_later_Some:
  "\<exists>r. foldl keep_later (Some b) rs = Some r \<and> r \<in> insert b (set rs) \<and>
       row_created_at r = Max (row_created_at ` insert b (set rs))"
proof (induction rs arbitrary: b)
  case Nil
  show ?case by simp
next
  case (Cons a rs)
  show ?case
  proof (cases "row_created_at a > row_created_at b")
    case True
    then have step: "foldl keep_later (Some b) (a # rs) = foldl keep_later (Some a) rs"
      by (simp add: keep_later_def)
    obtain r where r: "foldl keep_later (Some a) rs = Some r" "r \<in> insert a (set rs)"
      "row_created_at r = Max (row_created_at ` insert a (set rs))"
      using Cons.IH [of a] by blast
    have "row_created_at ` insert b (set (a # rs)) =
            insert (row_created_at b) (row_created_at ` insert a (set rs))"
      by auto
    moreover have "Max (insert (row_created_at b) (row_created_at ` insert a (set rs))) =
            Max (row_created_at ` insert a (set rs))"
      using True by (intro Max_insert_absorb [of _ "row_created_at a"]) auto
    ultimately have "Max (row_created_at ` insert b (set (a # rs))) =
            Max (row_created_at ` insert a (set rs))"
      by simp
    with r step show ?thesis by auto
  next
    case False
    then have step: "foldl keep_later (Some b) (a # rs) = foldl keep_later (Some b) rs"
      by (simp add: keep_later_def)
    obtain r where r: "foldl keep_later (Some b) rs = Some r" "r \<in> insert b (set rs)"
      "row_created_at r = Max (row_created_at ` insert b (set rs))"
      using Cons.IH [of b] by blast
    have "row_created_at ` insert b (set (a # rs)) =
            insert (row_created_at a) (row_created_at ` insert b (set rs))"
      by auto
    moreover have "Max (insert (row_created_at a) (row_created_at ` insert b (set rs))) =
            Max (row_created_at ` insert b (set rs))"
      using False by (intro Max_insert_absorb [of _ "row_created_at b"]) auto
    ultimately have "Max (row_created_at ` insert b (set (a # rs))) =
            Max (row_created_at ` insert b (set rs))"
      by simp
    with r step show ?thesis by auto
  qed
qed

lemma kept_row_None: "kept_row k data = None \<longleftrightarrow> session_rows k data = []"
proof (cases "session_rows k data")
  case Nil
  then show ?thesis by (simp add: kept_row_def)
next
  case (Cons b rs)
  then show ?thesis
    using foldl_keep_later_Some [of b rs] by (auto simp: kept_row_def keep_later_def)
qed

lemma kept_row_Some:
  assumes "kept_row k data = Some r"
  shows "r \<in> set (session_rows k data)"
    and "row_created_at r = Max (row_created_at ` set (session_rows k data))"
proof -
  obtain b rs where br: "session_rows k data = b # rs"
    using assms kept_row_None [of k data] by (cases "session_rows k data") auto
  obtain r' where "foldl keep_later (Some b) rs = Some r'" "r' \<in> insert b (set rs)"
      "row_created_at r' = Max (row_created_at ` insert b (set rs))"
    using foldl_keep_later_Some [of b rs] by blast
  moreover have "kept_row k data = foldl keep_later (Some b) rs"
    by (simp add: kept_row_def br keep_later_def)
  ultimately show "r \<in> set (session_rows k data)"
    and "row_created_at r = Max (row_created_at ` set (session_rows k data))"
    using assms br by auto
qed

lemma newConversations_mem:
  "c \<in> set (newConversations data) \<longleftrightarrow>
     (\<exists>r. kept_row (session_id c) data = Some r \<and> c = conversation_of_row r)"
proof
  assume "c \<in> set (newConversations data)"
  then obtain k where kc: "(k, c) \<in> set (sessionsMap data)"
    by (auto simp: newConversations_def)
  then have m: "map_of (sessionsMap data) k = Some c"
    using distinct_sessionsMap by simp
  then obtain r where r: "kept_row k data = Some r" "c = conversation_of_row r"
    by (auto simp: map_of_sessionsMap)
  from kept_row_Some(1) [OF r(1)] have "row_session_id r = k"
    by (simp add: session_rows_def)
  with r show "\<exists>r. kept_row (session_id c) data = Some r \<and> c = conversation_of_row r"
    by auto
next
  assume "\<exists>r. kept_row (session_id c) data = Some r \<and> c = conversation_of_row r"
  then have "map_of (sessionsMap data) (session_id c) = Some c"
    by (auto simp: map_of_sessionsMap)
  then have "(session_id c, c) \<in> set (sessionsMap data)"
    by (rule map_of_SomeD)
  then show "c \<in> set (newConversations data)"
    by (force simp: newConversations_def)
qed

lemma sessionsMap_key: "(k, c) \<in> set (sessionsMap data) \<Longrightarrow> session_id c = k"
proof -
  assume kc: "(k, c) \<in> set (sessionsMap data)"
  then have "map_of (sessionsMap data) k = Some c"
    using distinct_sessionsMap by simp
  then obtain r where r: "kept_row k data = Some r" "c = conversation_of_row r"
    by (auto simp: map_of_sessionsMap)
  from kept_row_Some(1) [OF r(1)] show ?thesis using r by (simp add: session_rows_def)
qed

lemma map_session_id_newConversations:
  "map session_id (newConversations data) = map fst (sessionsMap data)"
  unfolding newConversations_def using sessionsMap_key [of _ _ data]
  by (induction "sessionsMap data") auto

lemma keys_sessionsMap: "fst ` set (sessionsMap data) = row_session_id ` set data"
proof -
  have "k \<in> fst ` set (sessionsMap data) \<longleftrightarrow> k \<in> row_session_id ` set data" for k
  proof -
    have "k \<in> fst ` set (sessionsMap data) \<longleftrightarrow> map_of (sessionsMap data) k \<noteq> None"
      by (simp add: map_of_eq_None_iff)
    also have "\<dots> \<longleftrightarrow> session_rows k data \<noteq> []"
      by (simp add: map_of_sessionsMap kept_row_None)
    also have "\<dots> \<longleftrightarrow> k \<in> row_session_id ` set data"
      by (auto simp: session_rows_def filter_empty_conv)
    finally show ?thesis .
  qed
  then show ?thesis by blast
qed

lemma newConversations_created_at:
  assumes "c \<in> set (newConversations data)"
  shows "created_at c = Max (row_created_at ` set (session_rows (session_id c) data))"
proof -
  obtain r where r: "kept_row (session_id c) data = Some r" "c = conversation_of_row r"
    using assms newConversations_mem by blast
  from kept_row_Some(2) [OF r(1)] r(2) show ?thesis by simp
qed

text \<open>
  C1. For every list of rows, the grouping of \<^verbatim>\<open>loadConversations\<close> yields exactly one
  conversation per distinct \<open>session_id\<close> of the list (the session ids of the result are
  pairwise distinct and are those of the rows), and the \<open>created_at\<close> of each
  conversation is the greatest \<open>created_at\<close> among the rows of its session.
\<close>

theorem index_one_conversation_per_session:
  "distinct (map session_id (newConversations data)) \<and>
   set (map session_id (newConversations data)) = row_session_id ` set data \<and>
   (\<forall>c \<in> set (newConversations data).
      created_at c = Max (row_created_at ` set (session_rows (session_id c) data)))"
proof (intro conjI ballI)
  show "distinct (map session_id (newConversations data))"
    by (simp add: map_session_id_newConversations distinct_sessionsMap)
  show "set (map session_id (newConversations data)) = row_session_id ` set data"
    using keys_sessionsMap [of data] by (simp add: map_session_id_newConversations)
  show "created_at c = Max (row_created_at ` set (session_rows (session_id c) data))"
    if "c \<in> set (newConversations data)" for c
    using that by (rule newConversations_created_at)
qed

theorem index_one_conversation_per_session_witness:
  "example_conversation \<in> set (newConversations example_rows) \<and>
   distinct (map session_id (newConversations example_rows)) \<and>
   set (map session_id (newConversations example_rows)) = {''abc123456789'', ''xyz987654321''} \<and>
   created_at example_conversation =
     Max (row_created_at ` set (session_rows (session_id example_conversation) example_rows)) \<and>
   created_at example_conversation = 30"
proof -
  have mem: "example_conversation \<in> set (newConversations example_rows)"
    by (simp add: newConversations_example_rows)
  have ids: "row_session_id ` set example_rows = {''abc123456789'', ''xyz987654321''}"
    by (auto simp: example_rows_def)
  have "created_at example_conversation = 30"
    by (simp add: example_conversation_def)
  with mem ids index_one_conversation_per_session [of example_rows] show ?thesis
    by auto
qed

lemma update_absent: "map_of m k = None \<Longrightarrow> AList.update k v m = m @ [(k, v)]"
  by (induction m) (auto split: if_splits)

lemma sessionsMap_snoc: "sessionsMap (data @ [r]) = index_step (sessionsMap data) r"
  by (simp add: sessionsMap_def)

lemma newConversations_from_row:
  "c \<in> set (newConversations data) \<Longrightarrow> \<exists>r \<in> set data. c = conversation_of_row r"
proof -
  assume "c \<in> set (newConversations data)"
  then obtain r where r: "kept_row (session_id c) data = Some r" "c = conversation_of_row r"
    using newConversations_mem by blast
  from kept_row_Some(1) [OF r(1)] have "r \<in> set data" by (simp add: session_rows_def)
  with r show ?thesis by blast
qed

lemma newConversations_sorted:
  "sorted_wrt (\<lambda>a b. row_created_at a \<ge> row_created_at b) data \<Longrightarrow>
   sorted_wrt (\<lambda>a b. created_at a \<ge> created_at b) (newConversations data)"
proof (induction data rule: rev_induct)
  case Nil
  show ?case by (simp add: newConversations_def sessionsMap_def)
next
  case (snoc r data)
  from snoc.prems have sd: "sorted_wrt (\<lambda>a b. row_created_at a \<ge> row_created_at b) data"
    and le: "\<forall>x \<in> set data. row_created_at r \<le> row_created_at x"
    by (auto simp: sorted_wrt_append)
  have old: "\<forall>c \<in> set (newConversations data). row_created_at r \<le> created_at c"
    using le newConversations_from_row by fastforce
  show ?case
  proof (cases "map_of (sessionsMap data) (row_session_id r)")
    case None
    then have "sessionsMap (data @ [r]) =
                 sessionsMap data @ [(row_session_id r, conversation_of_row r)]"
      by (simp add: sessionsMap_snoc index_step_def update_absent)
    then have "newConversations (data @ [r]) = newConversations data @ [conversation_of_row r]"
      by (simp add: newConversations_def)
    with snoc.IH [OF sd] old show ?thesis
      by (simp add: sorted_wrt_append)
  next
    case (Some c)
    then have "(row_session_id r, c) \<in> set (sessionsMap data)"
      by (rule map_of_SomeD)
    then have "c \<in> set (newConversations data)"
      by (force simp: newConversations_def)
    with old have "\<not> row_created_at r > created_at c" by fastforce
    with Some have "sessionsMap (data @ [r]) = sessionsMap data"
      by (simp add: sessionsMap_snoc index_step_def)
    with snoc.IH [OF sd] show ?thesis by (simp add: newConversations_def)
  qed
qed

text \<open>
  C8. When the rows come in the order of the query at lines 61-64, latest \<open>created_at\<close>
  first, the conversations of the index are in that order too: every conversation is
  followed only by conversations whose \<open>created_at\<close> is not later.
\<close>

theorem index_sorted_descending:
  assumes "sorted_wrt (\<lambda>a b. row_created_at a \<ge> row_created_at b) data"
  shows "sorted_wrt (\<lambda>a b. created_at a \<ge> created_at b) (newConversations data)"
  using assms by (rule newConversations_sorted)

theorem index_sorted_descending_witness:
  "sorted_wrt (\<lambda>a b. row_created_at a \<ge> row_created_at b) example_rows \<and>
   sorted_wrt (\<lambda>a b. created_at a \<ge> created_at b) (newConversations example_rows) \<and>
   map created_at (newConversations example_rows) = [30, 20]"
proof -
  have h: "sorted_wrt (\<lambda>a b. row_created_at a \<ge> row_created_at b) example_rows"
    by (simp add: example_rows_def)
  have "map created_at (newConversations example_rows) = [30, 20]"
    by (simp add: newConversations_example_rows example_conversation_def
        example_conversation_unnamed_def)
  with h index_sorted_descending [OF h] show ?thesis by simp
qed

text \<open>
  C2, as the code has it. The \<open>display_name\<close> of a conversation is the one of the row the
  grouping keeps for its session, a row with the latest \<open>created_at\<close> of the session: the
  stored name of that row when it is not empty, and else the label made of
  \<^verbatim>\<open>Conversation\<close>, a space, the first 8 characters of the \<open>session_id\<close> and three dots.
  So a session none of whose rows carries a name gets the label, and a session whose
  rows all carry one name gets that name. A name stored on another row of the session
  only is not used: in \<open>example_rows_unnamed_latest\<close> the latest row has no name, an
  earlier one has, and the conversation gets the label.
\<close>

theorem display_name_of_kept_row:
  "\<forall>c \<in> set (newConversations data).
     (\<exists>r. kept_row (session_id c) data = Some r \<and>
          r \<in> set (session_rows (session_id c) data) \<and>
          row_created_at r = Max (row_created_at ` set (session_rows (session_id c) data)) \<and>
          display_name c =
            (case row_display_name r of
               None \<Rightarrow> ''Conversation '' @ take 8 (session_id c) @ ''...''
             | Some n \<Rightarrow> if n = [] then ''Conversation '' @ take 8 (session_id c) @ ''...'' else n)) \<and>
     ((\<forall>r \<in> set (session_rows (session_id c) data).
          row_display_name r = None \<or> row_display_name r = Some []) \<longrightarrow>
        display_name c = ''Conversation '' @ take 8 (session_id c) @ ''...'') \<and>
     (\<forall>n. n \<noteq> [] \<and> (\<forall>r \<in> set (session_rows (session_id c) data). row_display_name r = Some n)
        \<longrightarrow> display_name c = n)"
proof
  fix c
  assume "c \<in> set (newConversations data)"
  then obtain r where r: "kept_row (session_id c) data = Some r" "c = conversation_of_row r"
    using newConversations_mem by blast
  note in_rows = kept_row_Some(1) [OF r(1)]
  note is_max = kept_row_Some(2) [OF r(1)]
  have sid: "row_session_id r = session_id c"
    using r(2) by simp
  have dn: "display_name c =
            (case row_display_name r of
               None \<Rightarrow> ''Conversation '' @ take 8 (session_id c) @ ''...''
             | Some n \<Rightarrow> if n = [] then ''Conversation '' @ take 8 (session_id c) @ ''...'' else n)"
    using r(2) sid
    by (simp add: display_name_or_label_def synthesized_label_def substring_def
        split: option.splits)
  show "(\<exists>r. kept_row (session_id c) data = Some r \<and>
          r \<in> set (session_rows (session_id c) data) \<and>
          row_created_at r = Max (row_created_at ` set (session_rows (session_id c) data)) \<and>
          display_name c =
            (case row_display_name r of
               None \<Rightarrow> ''Conversation '' @ take 8 (session_id c) @ ''...''
             | Some n \<Rightarrow> if n = [] then ''Conversation '' @ take 8 (session_id c) @ ''...'' else n)) \<and>
     ((\<forall>r \<in> set (session_rows (session_id c) data).
          row_display_name r = None \<or> row_display_name r = Some []) \<longrightarrow>
        display_name c = ''Conversation '' @ take 8 (session_id c) @ ''...'') \<and>
     (\<forall>n. n \<noteq> [] \<and> (\<forall>r \<in> set (session_rows (session_id c) data). row_display_name r = Some n)
        \<longrightarrow> display_name c = n)"
  proof (intro conjI impI allI)
    show "\<exists>r. kept_row (session_id c) data = Some r \<and>
          r \<in> set (session_rows (session_id c) data) \<and>
          row_created_at r = Max (row_created_at ` set (session_rows (session_id c) data)) \<and>
          display_name c =
            (case row_display_name r of
               None \<Rightarrow> ''Conversation '' @ take 8 (session_id c) @ ''...''
             | Some n \<Rightarrow> if n = [] then ''Conversation '' @ take 8 (session_id c) @ ''...'' else n)"
      using r(1) in_rows is_max dn by blast
  next
    assume "\<forall>r \<in> set (session_rows (session_id c) data).
          row_display_name r = None \<or> row_display_name r = Some []"
    with in_rows have "row_display_name r = None \<or> row_display_name r = Some []" by blast
    with dn show "display_name c = ''Conversation '' @ take 8 (session_id c) @ ''...''"
      by auto
  next
    fix n
    assume "n \<noteq> [] \<and> (\<forall>r \<in> set (session_rows (session_id c) data). row_display_name r = Some n)"
    with in_rows have "n \<noteq> []" "row_display_name r = Some n" by blast+
    with dn show "display_name c = n" by simp
  qed
qed

theorem display_name_of_kept_row_witness:
  "example_conversation_unnamed \<in> set (newConversations example_rows) \<and>
   session_rows (session_id example_conversation_unnamed) example_rows = [example_rows ! 1] \<and>
   row_display_name (example_rows ! 1) = None \<and>
   display_name example_conversation_unnamed =
     ''Conversation '' @ take 8 (session_id example_conversation_unnamed) @ ''...''"
proof -
  have mem: "example_conversation_unnamed \<in> set (newConversations example_rows)"
    by (simp add: newConversations_example_rows)
  have rows: "session_rows (session_id example_conversation_unnamed) example_rows = [example_rows ! 1]"
    by (simp add: session_rows_def example_rows_def example_conversation_unnamed_def)
  have none: "row_display_name (example_rows ! 1) = None"
    by (simp add: example_rows_def)
  from display_name_of_kept_row [of example_rows] mem
  have "(\<forall>r \<in> set (session_rows (session_id example_conversation_unnamed) example_rows).
          row_display_name r = None \<or> row_display_name r = Some []) \<longrightarrow>
        display_name example_conversation_unnamed =
          ''Conversation '' @ take 8 (session_id example_conversation_unnamed) @ ''...''"
    by blast
  with rows none have "display_name example_conversation_unnamed =
          ''Conversation '' @ take 8 (session_id example_conversation_unnamed) @ ''...''"
    by simp
  with mem rows none show ?thesis by simp
qed

theorem display_name_any_row_counterexample:
  "map display_name (newConversations example_rows_unnamed_latest) = [''Conversation abc12345...''] \<and>
   map row_session_id example_rows_unnamed_latest = [''abc123456789'', ''abc123456789''] \<and>
   map row_display_name example_rows_unnamed_latest = [None, Some ''Support'']"
  by (simp add: index_eval example_rows_unnamed_latest_def)

text \<open>
  C10. Every conversation of the index has a \<open>display_name\<close> that is not empty: it is
  line 76 applied to a row of the list, which gives the stored name when there is one
  and it is not empty, and the label \<^verbatim>\<open>Conversation <first 8 characters>...\<close> when the
  stored name is \<^verbatim>\<open>null\<close> or the empty string.
\<close>

theorem index_display_name_nonempty:
  "(\<forall>c \<in> set (newConversations data).
      display_name c \<noteq> [] \<and>
      (\<exists>r \<in> set data. session_id c = row_session_id r \<and>
                       display_name c = display_name_or_label r)) \<and>
   display_name_or_label row \<noteq> [] \<and>
   (row_display_name row = None \<or> row_display_name row = Some [] \<longrightarrow>
      display_name_or_label row = ''Conversation '' @ take 8 (row_session_id row) @ ''...'') \<and>
   (\<forall>n. row_display_name row = Some n \<and> n \<noteq> [] \<longrightarrow> display_name_or_label row = n)"
proof -
  have ne: "display_name_or_label r \<noteq> []" for r
    by (simp add: display_name_or_label_def synthesized_label_def split: option.splits)
  have "display_name c \<noteq> [] \<and>
      (\<exists>r \<in> set data. session_id c = row_session_id r \<and>
                       display_name c = display_name_or_label r)"
    if mem: "c \<in> set (newConversations data)" for c
  proof -
    obtain r where "r \<in> set data" "c = conversation_of_row r"
      using mem newConversations_from_row by blast
    then show ?thesis using ne [of r] by auto
  qed
  moreover have "row_display_name row = None \<or> row_display_name row = Some [] \<longrightarrow>
      display_name_or_label row = ''Conversation '' @ take 8 (row_session_id row) @ ''...''"
    by (auto simp: display_name_or_label_def synthesized_label_def substring_def)
  moreover have "\<forall>n. row_display_name row = Some n \<and> n \<noteq> [] \<longrightarrow> display_name_or_label row = n"
    by (simp add: display_name_or_label_def)
  ultimately show ?thesis using ne [of row] by blast
qed

theorem index_display_name_nonempty_witness:
  "example_conversation_unnamed \<in> set (newConversations example_rows) \<and>
   display_name example_conversation_unnamed \<noteq> [] \<and>
   row_display_name (example_rows ! 1) = None \<and>
   display_name_or_label (example_rows ! 1) = ''Conversation xyz98765...''"
proof -
  have mem: "example_conversation_unnamed \<in> set (newConversations example_rows)"
    by (simp add: newConversations_example_rows)
  have none: "row_display_name (example_rows ! 1) = None"
    by (simp add: example_rows_def)
  have sid: "row_session_id (example_rows ! 1) = ''xyz987654321''"
    by (simp add: example_rows_def)
  from index_display_name_nonempty [of example_rows "example_rows ! 1"] mem none
  have "display_name example_conversation_unnamed \<noteq> []"
    and "display_name_or_label (example_rows ! 1) =
           ''Conversation '' @ take 8 (row_session_id (example_rows ! 1)) @ ''...''"
    by blast+
  with mem none sid show ?thesis by simp
qed

section \<open>Properties of the message thread loader\<close>

lemma map_throwing_Inl:
  "map_throwing f xs = Inl e \<Longrightarrow> \<exists>x \<in> set xs. f x = Inl e"
  by (induction xs) (auto split: sum.splits)

lemma map_throwing_Inr:
  "map_throwing f xs = Inr ys \<longleftrightarrow> map f xs = map Inr ys"
proof (induction xs arbitrary: ys)
  case Nil
  show ?case by auto
next
  case (Cons x xs)
  show ?case
  proof (cases "f x")
    case (Inl e)
    then show ?thesis by (cases ys) auto
  next
    case (Inr y)
    show ?thesis
    proof (cases "map_throwing f xs")
      case (Inl e)
      have "map f xs \<noteq> map Inr zs" for zs
        using Cons.IH [of zs] Inl by simp
      with Inl Inr show ?thesis by (cases ys) auto
    next
      case inner: (Inr zs)
      then have "map f xs = map Inr zs" using Cons.IH by simp
      with inner Inr show ?thesis by (cases ys) (auto simp: inj_map_eq_map [OF inj_Inr])
    qed
  qed
qed

lemma map_throwing_total:
  assumes "\<forall>x \<in> set xs. \<exists>y. f x = Inr y"
  shows "\<exists>ys. map_throwing f xs = Inr ys"
proof (cases "map_throwing f xs")
  case (Inl e)
  then obtain x where "x \<in> set xs" "f x = Inl e" using map_throwing_Inl by fast
  with assms show ?thesis by fastforce
next
  case (Inr ys)
  then show ?thesis by blast
qed

lemma message_of_row_decode_fails:
  "decode_fails json_parse row \<Longrightarrow>
   message_of_row json_parse row =
     Inr \<lparr>msg_id = row_id row, msg_type = JStr ''unknown'',
          msg_content = JStr ''Message non parsable'', msg_timestamp = row_created_at row\<rparr>"
  by (auto simp: decode_fails_def message_of_row_def parsedMessage_def placeholder_def
      get_prop_def split: jsval.splits)

lemma message_of_row_Inl:
  "message_of_row json_parse row = Inl e \<longleftrightarrow>
     e = TypeError \<and>
     (parsedMessage json_parse (row_message row) = JNull \<or>
      parsedMessage json_parse (row_message row) = JUndefined)"
  by (cases "parsedMessage json_parse (row_message row)")
     (auto simp: message_of_row_def get_prop_def Let_def)

text \<open>What the inner \<^verbatim>\<open>try\<close> does achieve. A row whose payload cannot be decoded gives
  the message of type \<^verbatim>\<open>unknown\<close> with the content \<^verbatim>\<open>Message non parsable\<close>; when
  \<^verbatim>\<open>data.map\<close> is left by an exception, the row that raised it is one whose decoding
  did not fail; and a batch in which every row yields a message gives one message per
  row, in order.\<close>

lemma decode_failure_is_not_fatal:
  "(decode_fails json_parse row \<longrightarrow>
      message_of_row json_parse row =
        Inr \<lparr>msg_id = row_id row, msg_type = JStr ''unknown'',
             msg_content = JStr ''Message non parsable'',
             msg_timestamp = row_created_at row\<rparr>) \<and>
   (parsedMessages json_parse data = Inl e \<longrightarrow>
      (\<exists>r \<in> set data. \<not> decode_fails json_parse r \<and> message_of_row json_parse r = Inl e)) \<and>
   ((\<forall>r \<in> set data. decode_fails json_parse r \<or> (\<exists>m. message_of_row json_parse r = Inr m)) \<longrightarrow>
      (\<exists>ms. parsedMessages json_parse data = Inr ms \<and> length ms = length data \<and>
            (\<forall>i < length data. message_of_row json_parse (data ! i) = Inr (ms ! i)) \<and>
            messages (loadMessages_resume json_parse json_stringify (Inr data) st) =
              setMessages_updater json_stringify \<lparr>ref = next_ref st, elems = ms\<rparr> (messages st)))"
proof (intro conjI impI)
  assume "decode_fails json_parse row"
  then show "message_of_row json_parse row =
        Inr \<lparr>msg_id = row_id row, msg_type = JStr ''unknown'',
             msg_content = JStr ''Message non parsable'',
             msg_timestamp = row_created_at row\<rparr>"
    by (rule message_of_row_decode_fails)
next
  assume "parsedMessages json_parse data = Inl e"
  then obtain r where r: "r \<in> set data" "message_of_row json_parse r = Inl e"
    unfolding parsedMessages_def using map_throwing_Inl by fast
  then have "\<not> decode_fails json_parse r"
    using message_of_row_decode_fails [of json_parse r] by auto
  with r show "\<exists>r \<in> set data. \<not> decode_fails json_parse r \<and> message_of_row json_parse r = Inl e"
    by blast
next
  assume ok: "\<forall>r \<in> set data. decode_fails json_parse r \<or> (\<exists>m. message_of_row json_parse r = Inr m)"
  have "\<forall>r \<in> set data. \<exists>m. message_of_row json_parse r = Inr m"
    using ok message_of_row_decode_fails by blast
  then obtain ms where ms: "parsedMessages json_parse data = Inr ms"
    unfolding parsedMessages_def using map_throwing_total by blast
  then have eq: "map (message_of_row json_parse) data = map Inr ms"
    by (simp add: parsedMessages_def map_throwing_Inr)
  then have len: "length ms = length data"
    by (metis length_map)
  have nth: "\<forall>i < length data. message_of_row json_parse (data ! i) = Inr (ms ! i)"
  proof (intro allI impI)
    fix i assume i: "i < length data"
    then have "map (message_of_row json_parse) data ! i = map Inr ms ! i" using eq by simp
    with i len show "message_of_row json_parse (data ! i) = Inr (ms ! i)" by simp
  qed
  have "messages (loadMessages_resume json_parse json_stringify (Inr data) st) =
              setMessages_updater json_stringify \<lparr>ref = next_ref st, elems = ms\<rparr> (messages st)"
    by (simp add: loadMessages_resume_def ms)
  with ms len nth
  show "\<exists>ms. parsedMessages json_parse data = Inr ms \<and> length ms = length data \<and>
            (\<forall>i < length data. message_of_row json_parse (data ! i) = Inr (ms ! i)) \<and>
            messages (loadMessages_resume json_parse json_stringify (Inr data) st) =
              setMessages_updater json_stringify \<lparr>ref = next_ref st, elems = ms\<rparr> (messages st)"
    by blast
qed

lemmas thread_eval =
  parsedMessages_def message_of_row_def parsedMessage_def get_prop_def placeholder_def
  example_json_parse_def Let_def

lemma parsedMessages_example_thread:
  "parsedMessages example_json_parse example_thread = Inr example_messages"
  by (simp add: thread_eval example_thread_def example_messages_def)

text \<open>
  C3. A decoding failure gets its placeholder, yet \<^verbatim>\<open>loadMessages\<close> does not yield a
  message for every row of every batch that holds one. In
  \<open>example_thread_null_payload\<close> the first row is not JSON and becomes the placeholder
  message. The payload of the second row is the JSON text \<^verbatim>\<open>null\<close>: it parses, the
  inner \<^verbatim>\<open>try\<close> is left normally, and the property read at line 110 throws outside it.
  \<^verbatim>\<open>data.map\<close> is left, the \<^verbatim>\<open>catch\<close> at line 126 logs, and \<^verbatim>\<open>setMessages\<close> is
  never called: the state is what it was, with no message for either row.
\<close>

theorem null_payload_aborts_batch:
  "decode_fails example_json_parse (example_thread_null_payload ! 0) \<and>
   message_of_row example_json_parse (example_thread_null_payload ! 0) =
     Inr \<lparr>msg_id = JNum 1, msg_type = JStr ''unknown'',
          msg_content = JStr ''Message non parsable'', msg_timestamp = 10\<rparr> \<and>
   parsedMessage example_json_parse (row_message (example_thread_null_payload ! 1)) = JNull \<and>
   message_of_row example_json_parse (example_thread_null_payload ! 1) = Inl TypeError \<and>
   parsedMessages example_json_parse example_thread_null_payload = Inl TypeError \<and>
   loadMessages_resume example_json_parse stringify_messages
     (Inr example_thread_null_payload) (initial_state example_rows) =
     initial_state example_rows"
proof -
  have p: "parsedMessages example_json_parse example_thread_null_payload = Inl TypeError"
    by (simp add: thread_eval example_thread_null_payload_def)
  then have "loadMessages_resume example_json_parse stringify_messages
     (Inr example_thread_null_payload) (initial_state example_rows) =
     initial_state example_rows"
    by (simp add: loadMessages_resume_def)
  moreover have "decode_fails example_json_parse (example_thread_null_payload ! 0)"
    by (simp add: decode_fails_def example_thread_null_payload_def example_json_parse_def)
  moreover have "message_of_row example_json_parse (example_thread_null_payload ! 0) =
     Inr \<lparr>msg_id = JNum 1, msg_type = JStr ''unknown'',
          msg_content = JStr ''Message non parsable'', msg_timestamp = 10\<rparr>"
    "parsedMessage example_json_parse (row_message (example_thread_null_payload ! 1)) = JNull"
    "message_of_row example_json_parse (example_thread_null_payload ! 1) = Inl TypeError"
    by (simp_all add: thread_eval example_thread_null_payload_def)
  ultimately show ?thesis using p by simp
qed

lemma decode_failure_is_not_fatal_example:
  "decode_fails example_json_parse (example_thread ! 1) \<and>
   message_of_row example_json_parse (example_thread ! 1) = Inr (example_messages ! 1) \<and>
   msg_type (example_messages ! 1) = JStr ''unknown'' \<and>
   parsedMessages example_json_parse example_thread = Inr example_messages \<and>
   length example_messages = length example_thread"
proof -
  have fails: "decode_fails example_json_parse (example_thread ! 1)"
    by (simp add: decode_fails_def example_thread_def example_json_parse_def)
  have "message_of_row example_json_parse (example_thread ! 1) =
      Inr \<lparr>msg_id = row_id (example_thread ! 1), msg_type = JStr ''unknown'',
           msg_content = JStr ''Message non parsable'',
           msg_timestamp = row_created_at (example_thread ! 1)\<rparr>"
    using fails decode_failure_is_not_fatal [of example_json_parse "example_thread ! 1"]
    by blast
  then have m: "message_of_row example_json_parse (example_thread ! 1) = Inr (example_messages ! 1)"
    by (simp add: example_thread_def example_messages_def)
  have "msg_type (example_messages ! 1) = JStr ''unknown''"
    by (simp add: example_messages_def)
  moreover have "length example_messages = length example_thread"
    by (simp add: example_messages_def example_thread_def)
  ultimately show ?thesis using fails m parsedMessages_example_thread by simp
qed

lemma setMessages_updater_same:
  "elems new = elems prev \<Longrightarrow> setMessages_updater json_stringify new prev = prev"
  by (simp add: setMessages_updater_def)

lemma setMessages_updater_cases:
  "setMessages_updater json_stringify new prev = prev \<or>
   (setMessages_updater json_stringify new prev = new \<and> elems new \<noteq> elems prev)"
  by (auto simp: setMessages_updater_def Let_def)

text \<open>
  C5. When the fetched messages equal the displayed ones, the updater of
  \<^verbatim>\<open>setMessages\<close> returns the previous array itself, so the state cell keeps its
  object; the array is replaced by the new one only when the contents differ. The same
  for \<^verbatim>\<open>loadMessages\<close> as a whole.
\<close>

theorem unchanged_thread_is_not_replaced:
  "(elems new = elems prev \<longrightarrow> setMessages_updater json_stringify new prev = prev) \<and>
   (setMessages_updater json_stringify new prev \<noteq> prev \<longrightarrow>
      elems new \<noteq> elems prev \<and> setMessages_updater json_stringify new prev = new) \<and>
   (parsedMessages json_parse data = Inr (elems (messages st)) \<longrightarrow>
      messages (loadMessages_resume json_parse json_stringify (Inr data) st) = messages st) \<and>
   (messages (loadMessages_resume json_parse json_stringify response st) \<noteq> messages st \<longrightarrow>
      (\<exists>data ms. response = Inr data \<and> parsedMessages json_parse data = Inr ms \<and>
                 ms \<noteq> elems (messages st) \<and>
                 messages (loadMessages_resume json_parse json_stringify response st) =
                   \<lparr>ref = next_ref st, elems = ms\<rparr>))"
proof -
  have c1: "elems new = elems prev \<longrightarrow> setMessages_updater json_stringify new prev = prev"
    by (simp add: setMessages_updater_same)
  have c2: "setMessages_updater json_stringify new prev \<noteq> prev \<longrightarrow>
      elems new \<noteq> elems prev \<and> setMessages_updater json_stringify new prev = new"
    using setMessages_updater_cases [of json_stringify new prev] by blast
  have c3: "parsedMessages json_parse data = Inr (elems (messages st)) \<longrightarrow>
      messages (loadMessages_resume json_parse json_stringify (Inr data) st) = messages st"
    by (simp add: loadMessages_resume_def setMessages_updater_same)
  have c4: "messages (loadMessages_resume json_parse json_stringify response st) \<noteq> messages st \<longrightarrow>
      (\<exists>data ms. response = Inr data \<and> parsedMessages json_parse data = Inr ms \<and>
                 ms \<noteq> elems (messages st) \<and>
                 messages (loadMessages_resume json_parse json_stringify response st) =
                   \<lparr>ref = next_ref st, elems = ms\<rparr>)"
  proof
    assume changed: "messages (loadMessages_resume json_parse json_stringify response st) \<noteq> messages st"
    then obtain data where data: "response = Inr data"
      by (cases response) (auto simp: loadMessages_resume_def)
    with changed obtain ms where ms: "parsedMessages json_parse data = Inr ms"
      by (cases "parsedMessages json_parse data") (auto simp: loadMessages_resume_def)
    let ?new = "\<lparr>ref = next_ref st, elems = ms\<rparr>"
    have res: "messages (loadMessages_resume json_parse json_stringify response st) =
            setMessages_updater json_stringify ?new (messages st)"
      by (simp add: loadMessages_resume_def data ms)
    with changed setMessages_updater_cases [of json_stringify ?new "messages st"]
    have "setMessages_updater json_stringify ?new (messages st) = ?new" "ms \<noteq> elems (messages st)"
      by auto
    with res data ms
    show "\<exists>data ms. response = Inr data \<and> parsedMessages json_parse data = Inr ms \<and>
                   ms \<noteq> elems (messages st) \<and>
                   messages (loadMessages_resume json_parse json_stringify response st) =
                     \<lparr>ref = next_ref st, elems = ms\<rparr>"
      by auto
  qed
  from c1 c2 c3 c4 show ?thesis by (intro conjI) assumption+
qed

lemma stringify_messages_example_ne:
  "stringify_messages example_messages \<noteq> stringify_messages []"
  by (simp add: stringify_messages_def example_messages_def)

lemma messages_example_state_loaded:
  "messages example_state_loaded = \<lparr>ref = 1, elems = example_messages\<rparr>"
  by (simp add: example_state_loaded_def loadMessages_resume_def parsedMessages_example_thread
      setMessages_updater_def initial_state_def stringify_messages_example_ne)

theorem unchanged_thread_is_not_replaced_witness:
  "parsedMessages example_json_parse example_thread = Inr (elems (messages example_state_loaded)) \<and>
   messages (loadMessages_resume example_json_parse stringify_messages (Inr example_thread)
               example_state_loaded) = messages example_state_loaded \<and>
   ref (messages example_state_loaded) = 1 \<and>
   next_ref example_state_loaded = 2"
proof -
  have h: "parsedMessages example_json_parse example_thread =
           Inr (elems (messages example_state_loaded))"
    by (simp add: messages_example_state_loaded parsedMessages_example_thread)
  have "messages (loadMessages_resume example_json_parse stringify_messages (Inr example_thread)
               example_state_loaded) = messages example_state_loaded"
    using h unchanged_thread_is_not_replaced
      [of _ _ stringify_messages example_json_parse example_thread example_state_loaded]
    by blast
  moreover have "next_ref example_state_loaded = 2"
    by (simp add: example_state_loaded_def loadMessages_resume_def parsedMessages_example_thread
        initial_state_def)
  ultimately show ?thesis using h by (simp add: messages_example_state_loaded)
qed

section \<open>Properties of the rename workflow\<close>

lemma trim_empty_iff: "trim s = [] \<longleftrightarrow> (\<forall>c \<in> set s. is_white_space c)"
proof
  assume "trim s = []"
  then have "\<forall>c \<in> set (dropWhile is_white_space s). is_white_space c"
    by (simp add: trim_def dropWhile_eq_Nil_conv)
  then have "dropWhile is_white_space s = []"
    using hd_dropWhile [of is_white_space s] hd_in_set [of "dropWhile is_white_space s"]
    by blast
  then show "\<forall>c \<in> set s. is_white_space c"
    by (simp add: dropWhile_eq_Nil_conv)
next
  assume "\<forall>c \<in> set s. is_white_space c"
  then have d: "dropWhile is_white_space s = []"
    by (simp add: dropWhile_eq_Nil_conv)
  show "trim s = []" unfolding trim_def d by simp
qed

lemma handleRenameSubmit_blank:
  "trim (newSessionName st) = [] \<Longrightarrow> handleRenameSubmit outcome st = st\<lparr>editingSession := None\<rparr>"
  by (simp add: handleRenameSubmit_def handleRenameSubmit_call_def)

lemma handleRenameSubmit_nonblank:
  "trim (newSessionName st) \<noteq> [] \<Longrightarrow>
   handleRenameSubmit outcome st =
     handleRenameSubmit_resume
       (editingSession st, trim (newSessionName st), selectedConversation st) outcome st"
  by (simp add: handleRenameSubmit_def handleRenameSubmit_call_def update_response_def
      remove_nth_def)

text \<open>
  C7. A rename submitted with a draft that is empty or made of white space only issues
  no update (nothing is added to the pending updates, the table is untouched), leaves
  the index and the selected conversation as they are, and clears the editing session:
  the whole effect is \<open>editingSession := None\<close>.
\<close>

theorem blank_rename_is_a_cancel:
  assumes "\<forall>c \<in> set (newSessionName st). is_white_space c"
  shows "handleRenameSubmit outcome st = st\<lparr>editingSession := None\<rparr> \<and>
         handleRenameSubmit_call st = st\<lparr>editingSession := None\<rparr> \<and>
         pending_updates (handleRenameSubmit outcome st) = pending_updates st \<and>
         table (handleRenameSubmit outcome st) = table st \<and>
         conversations (handleRenameSubmit outcome st) = conversations st \<and>
         selectedConversation (handleRenameSubmit outcome st) = selectedConversation st \<and>
         editingSession (handleRenameSubmit outcome st) = None"
proof -
  have "trim (newSessionName st) = []"
    using assms by (simp add: trim_empty_iff)
  then have "handleRenameSubmit outcome st = st\<lparr>editingSession := None\<rparr>"
    and "handleRenameSubmit_call st = st\<lparr>editingSession := None\<rparr>"
    by (simp_all add: handleRenameSubmit_blank handleRenameSubmit_call_def)
  then show ?thesis by simp
qed

text \<open>A rename submitted with a draft that is not blank, and answered before anything
  else happens. Up to the \<^verbatim>\<open>await\<close> the index and the selected conversation are
  untouched: the request is only recorded as pending. When the backend confirms, the
  entry of the edited session gets the trimmed draft as its name, and so does the
  selected conversation when it is that session. When the backend rejects the update or
  the call throws, the index, the selected conversation and the table stay as they were
  and the notice is shown. Either way the editing session and the draft are cleared.\<close>

lemma rename_submit_outcomes:
  assumes "trim (newSessionName st) \<noteq> []"
  shows
    "conversations (handleRenameSubmit_call st) = conversations st \<and>
     selectedConversation (handleRenameSubmit_call st) = selectedConversation st \<and>
     pending_updates (handleRenameSubmit_call st) =
       pending_updates st @ [(editingSession st, trim (newSessionName st), selectedConversation st)] \<and>
     (outcome = Updated \<longrightarrow>
        conversations (handleRenameSubmit outcome st) =
          map (\<lambda>conv. if Some (session_id conv) = editingSession st
                       then conv\<lparr>display_name := trim (newSessionName st)\<rparr> else conv)
              (conversations st) \<and>
        selectedConversation (handleRenameSubmit outcome st) =
          (case selectedConversation st of
             None \<Rightarrow> None
           | Some sc \<Rightarrow> if Some (session_id sc) = editingSession st
                        then Some (sc\<lparr>display_name := trim (newSessionName st)\<rparr>)
                        else Some sc) \<and>
        alerts (handleRenameSubmit outcome st) = alerts st) \<and>
     (outcome \<noteq> Updated \<longrightarrow>
        conversations (handleRenameSubmit outcome st) = conversations st \<and>
        selectedConversation (handleRenameSubmit outcome st) = selectedConversation st \<and>
        table (handleRenameSubmit outcome st) = table st \<and>
        alerts (handleRenameSubmit outcome st) = alerts st @ [SaveNameFailed]) \<and>
     editingSession (handleRenameSubmit outcome st) = None \<and>
     newSessionName (handleRenameSubmit outcome st) = []"
proof -
  have call: "conversations (handleRenameSubmit_call st) = conversations st \<and>
     selectedConversation (handleRenameSubmit_call st) = selectedConversation st \<and>
     pending_updates (handleRenameSubmit_call st) =
       pending_updates st @ [(editingSession st, trim (newSessionName st), selectedConversation st)]"
    using assms by (simp add: handleRenameSubmit_call_def)
  note eq = handleRenameSubmit_nonblank [OF assms]
  have ok: "outcome = Updated \<longrightarrow>
        conversations (handleRenameSubmit outcome st) =
          map (\<lambda>conv. if Some (session_id conv) = editingSession st
                       then conv\<lparr>display_name := trim (newSessionName st)\<rparr> else conv)
              (conversations st) \<and>
        selectedConversation (handleRenameSubmit outcome st) =
          (case selectedConversation st of
             None \<Rightarrow> None
           | Some sc \<Rightarrow> if Some (session_id sc) = editingSession st
                        then Some (sc\<lparr>display_name := trim (newSessionName st)\<rparr>)
                        else Some sc) \<and>
        alerts (handleRenameSubmit outcome st) = alerts st"
    by (cases "selectedConversation st")
       (simp_all add: eq handleRenameSubmit_resume_def updateDisplayNameInDatabase_def
          selection_effect_def Let_def)
  have ko: "outcome \<noteq> Updated \<longrightarrow>
        conversations (handleRenameSubmit outcome st) = conversations st \<and>
        selectedConversation (handleRenameSubmit outcome st) = selectedConversation st \<and>
        table (handleRenameSubmit outcome st) = table st \<and>
        alerts (handleRenameSubmit outcome st) = alerts st @ [SaveNameFailed]"
    by (cases outcome)
       (simp_all add: eq handleRenameSubmit_resume_def updateDisplayNameInDatabase_def Let_def)
  have fin: "editingSession (handleRenameSubmit outcome st) = None \<and>
     newSessionName (handleRenameSubmit outcome st) = []"
    by (simp add: eq handleRenameSubmit_resume_def Let_def)
  from call ok ko fin show ?thesis by (intro conjI) (elim conjE, assumption)+
qed


lemma example_state_editing_reachable:
  "example_state_editing =
     run json_parse json_stringify (initial_state example_rows)
       [ConversationsResponse (Inr example_rows), ConversationClick example_conversation,
        RenameStart example_conversation, NameInput '' Billing '']"
  by (simp add: run_def example_state_editing_def initial_state_def loadConversations_def
      newConversations_example_rows handleConversationClick_def selection_effect_def
      loadMessages_call_def handleRenameStart_def example_conversation_def)

lemma trim_example: "trim '' Billing '' = ''Billing''"
  by (simp add: trim_def is_white_space_def)

theorem blank_rename_is_a_cancel_witness:
  "(list_all is_white_space (newSessionName (example_state_editing\<lparr>newSessionName := ''  ''\<rparr>))) \<and>
   handleRenameSubmit Updated (example_state_editing\<lparr>newSessionName := ''  ''\<rparr>) =
     example_state_editing\<lparr>newSessionName := ''  '', editingSession := None\<rparr> \<and>
   pending_updates (handleRenameSubmit Updated (example_state_editing\<lparr>newSessionName := ''  ''\<rparr>)) = [] \<and>
   conversations (handleRenameSubmit Updated (example_state_editing\<lparr>newSessionName := ''  ''\<rparr>)) =
     [example_conversation, example_conversation_unnamed]"
proof -
  let ?st = "example_state_editing\<lparr>newSessionName := ''  ''\<rparr>"
  have ws: "\<forall>c \<in> set (newSessionName ?st). is_white_space c"
    by (simp add: is_white_space_def)
  have "pending_updates ?st = []" "conversations ?st = [example_conversation, example_conversation_unnamed]"
    by (simp_all add: example_state_editing_def)
  with blank_rename_is_a_cancel [OF ws, of Updated] ws show ?thesis
    by (simp add: list_all_iff)
qed

lemma rename_submit_outcomes_example:
  "trim (newSessionName example_state_editing) = ''Billing'' \<and>
   conversations (handleRenameSubmit Updated example_state_editing) =
     [example_conversation\<lparr>display_name := ''Billing''\<rparr>, example_conversation_unnamed] \<and>
   selectedConversation (handleRenameSubmit Updated example_state_editing) =
     Some (example_conversation\<lparr>display_name := ''Billing''\<rparr>) \<and>
   conversations (handleRenameSubmit Rejected example_state_editing) =
     [example_conversation, example_conversation_unnamed] \<and>
   selectedConversation (handleRenameSubmit Rejected example_state_editing) =
     Some example_conversation \<and>
   alerts (handleRenameSubmit Rejected example_state_editing) = [SaveNameFailed] \<and>
   editingSession (handleRenameSubmit Rejected example_state_editing) = None"
proof -
  have t: "trim (newSessionName example_state_editing) = ''Billing''"
    by (simp add: example_state_editing_def trim_example)
  then have ne: "trim (newSessionName example_state_editing) \<noteq> []" by simp
  have fields: "conversations example_state_editing = [example_conversation, example_conversation_unnamed]"
    "selectedConversation example_state_editing = Some example_conversation"
    "editingSession example_state_editing = Some ''abc123456789''"
    "alerts example_state_editing = []"
    by (simp_all add: example_state_editing_def)
  have ids: "session_id example_conversation = ''abc123456789''"
    "session_id example_conversation_unnamed = ''xyz987654321''"
    by (simp_all add: example_conversation_def example_conversation_unnamed_def)
  from rename_submit_outcomes [OF ne, of Updated] rename_submit_outcomes [OF ne, of Rejected]
  show ?thesis by (simp add: t fields ids)
qed

lemma example_state_renaming_reselected_eq:
  "example_state_renaming_reselected =
     \<lparr>conversations = [example_conversation, example_conversation_unnamed],
      selectedConversation = Some example_conversation_unnamed,
      messages = \<lparr>ref = 0, elems = []\<rparr>, loading = False, searchTerm = [],
      editingSession = None, newSessionName = [],
      thread_interval = Some ''xyz987654321'',
      in_flight = [''abc123456789'', ''xyz987654321''],
      next_ref = 1,
      pending_updates = [(Some ''abc123456789'', ''Billing'', Some example_conversation)],
      table = example_rows, alerts = []\<rparr>"
  by (simp add: example_state_renaming_reselected_def run_def example_state_editing_def
      handleRenameSubmit_call_def trim_example handleRenameCancel_def
      handleConversationClick_def selection_effect_def loadMessages_call_def
      example_conversation_unnamed_def)

lemma example_state_renaming_selected_late_eq:
  "example_state_renaming_selected_late =
     \<lparr>conversations = [example_conversation, example_conversation_unnamed],
      selectedConversation = Some example_conversation,
      messages = \<lparr>ref = 0, elems = []\<rparr>, loading = False, searchTerm = [],
      editingSession = None, newSessionName = [],
      thread_interval = Some ''abc123456789'',
      in_flight = [''xyz987654321'', ''abc123456789''],
      next_ref = 1,
      pending_updates =
        [(Some ''abc123456789'', ''Billing'', Some example_conversation_unnamed)],
      table = example_rows, alerts = []\<rparr>"
  by (simp add: example_state_renaming_selected_late_def run_def initial_state_def
      loadConversations_def newConversations_example_rows handleRenameStart_def
      handleRenameSubmit_call_def trim_example handleRenameCancel_def
      handleConversationClick_def selection_effect_def loadMessages_call_def
      example_conversation_unnamed_def example_conversation_def)

text \<open>
  C6. The continuation of \<^verbatim>\<open>handleRenameSubmit\<close> tests the selection of the render in
  which Enter was pressed (line 191), and its updater renames whatever is selected when
  the answer comes (lines 192-195). In \<open>example_state_renaming_reselected\<close> the first
  session was selected and renamed, and the second was clicked before the backend
  confirmed: on the confirmation the selected conversation, which is the second session,
  is given the name \<^verbatim>\<open>Billing\<close>, while the index keeps its label. In
  \<open>example_state_renaming_selected_late\<close> the first session was renamed while the
  second was selected, and the first was clicked before the backend confirmed: on the
  confirmation the index entry of the first session is renamed, and the selected
  conversation, which is that session, keeps the name \<^verbatim>\<open>Support\<close>.
\<close>

theorem rename_answer_reads_stale_selection:
  "pending_updates example_state_renaming_reselected =
     [(Some ''abc123456789'', ''Billing'', Some example_conversation)] \<and>
   selectedConversation example_state_renaming_reselected = Some example_conversation_unnamed \<and>
   session_id example_conversation_unnamed = ''xyz987654321'' \<and>
   selectedConversation
     (step example_json_parse stringify_messages example_state_renaming_reselected
        (UpdateResponse 0 Updated)) =
     Some (example_conversation_unnamed\<lparr>display_name := ''Billing''\<rparr>) \<and>
   conversations
     (step example_json_parse stringify_messages example_state_renaming_reselected
        (UpdateResponse 0 Updated)) =
     [example_conversation\<lparr>display_name := ''Billing''\<rparr>, example_conversation_unnamed] \<and>
   pending_updates example_state_renaming_selected_late =
     [(Some ''abc123456789'', ''Billing'', Some example_conversation_unnamed)] \<and>
   selectedConversation example_state_renaming_selected_late = Some example_conversation \<and>
   session_id example_conversation = ''abc123456789'' \<and>
   selectedConversation
     (step example_json_parse stringify_messages example_state_renaming_selected_late
        (UpdateResponse 0 Updated)) =
     Some example_conversation \<and>
   display_name example_conversation = ''Support'' \<and>
   conversations
     (step example_json_parse stringify_messages example_state_renaming_selected_late
        (UpdateResponse 0 Updated)) =
     [example_conversation\<lparr>display_name := ''Billing''\<rparr>, example_conversation_unnamed]"
proof -
  have ids: "session_id example_conversation = ''abc123456789''"
    "session_id example_conversation_unnamed = ''xyz987654321''"
    "display_name example_conversation = ''Support''"
    by (simp_all add: example_conversation_def example_conversation_unnamed_def)
  show ?thesis
    by (simp add: example_state_renaming_reselected_eq example_state_renaming_selected_late_eq
        update_response_def remove_nth_def handleRenameSubmit_resume_def
        updateDisplayNameInDatabase_def selection_effect_def Let_def ids)
qed

section \<open>Properties of the filter\<close>


lemma length_toLowerCase [simp]: "length (toLowerCase s) = length s"
  by (simp add: toLowerCase_def)

lemma toLowerCase_append [simp]: "toLowerCase (a @ b) = toLowerCase a @ toLowerCase b"
  by (simp add: toLowerCase_def)












section \<open>Thread refresh and selection\<close>

lemma example_state_reselected_eq:
  "example_state_reselected =
     \<lparr>conversations = [example_conversation, example_conversation_unnamed],
      selectedConversation = Some example_conversation_unnamed,
      messages = \<lparr>ref = 0, elems = []\<rparr>, loading = False, searchTerm = [],
      editingSession = None, newSessionName = [],
      thread_interval = Some ''xyz987654321'',
      in_flight = [''abc123456789'', ''xyz987654321''],
      next_ref = 1, pending_updates = [], table = example_rows, alerts = []\<rparr>"
  by (simp add: example_state_reselected_def run_def initial_state_def loadConversations_def
      newConversations_example_rows handleConversationClick_def selection_effect_def
      loadMessages_call_def example_conversation_def example_conversation_unnamed_def)

text \<open>
  C4. The component does not hold a thread response back when the selection has moved
  on. In \<open>example_state_reselected\<close> the first session was clicked, then the second,
  and both thread queries are in flight. When the response to the first query arrives,
  with the rows of the first session, the displayed messages become the messages of
  those rows, while the selected conversation is the second session: nothing after the
  \<^verbatim>\<open>await\<close> of \<^verbatim>\<open>loadMessages\<close> compares \<open>sessionId\<close> with the selection.
\<close>

theorem stale_thread_response_is_applied:
  "in_flight example_state_reselected = [''abc123456789'', ''xyz987654321''] \<and>
   map_option session_id (selectedConversation example_state_reselected) = Some ''xyz987654321'' \<and>
   map row_session_id example_thread = [''abc123456789'', ''abc123456789'', ''abc123456789''] \<and>
   messages example_state_reselected = \<lparr>ref = 0, elems = []\<rparr> \<and>
   messages (step example_json_parse stringify_messages example_state_reselected
               (MessagesResponse 0 (Inr example_thread))) =
     \<lparr>ref = 1, elems = example_messages\<rparr> \<and>
   selectedConversation (step example_json_parse stringify_messages example_state_reselected
               (MessagesResponse 0 (Inr example_thread))) =
     Some example_conversation_unnamed \<and>
   in_flight (step example_json_parse stringify_messages example_state_reselected
               (MessagesResponse 0 (Inr example_thread))) = [''xyz987654321'']"
proof -
  have "map row_session_id example_thread = [''abc123456789'', ''abc123456789'', ''abc123456789'']"
    by (simp add: example_thread_def)
  moreover have "session_id example_conversation_unnamed = ''xyz987654321''"
    by (simp add: example_conversation_unnamed_def)
  ultimately show ?thesis
    by (simp add: example_state_reselected_eq messages_response_def remove_nth_def
        loadMessages_resume_def parsedMessages_example_thread setMessages_updater_def
        stringify_messages_example_ne)
qed

text \<open>What is tied to the selection is the timer: in every state the component can
  reach, the one live interval polls the session of the selected conversation.\<close>

lemma loadMessages_resume_ignores_selection:
  "messages (loadMessages_resume json_parse json_stringify response
               (st\<lparr>selectedConversation := sel\<rparr>)) =
   messages (loadMessages_resume json_parse json_stringify response st)"
  by (simp add: loadMessages_resume_def split: sum.splits)

lemma step_interval:
  "thread_interval st = map_option session_id (selectedConversation st) \<Longrightarrow>
   thread_interval (step json_parse json_stringify st ev) =
     map_option session_id (selectedConversation (step json_parse json_stringify st ev))"
proof (cases ev)
  case (UpdateResponse i outcome)
  assume inv: "thread_interval st = map_option session_id (selectedConversation st)"
  show ?thesis
  proof (cases "i < length (pending_updates st)")
    case True
    obtain e n sel where c: "pending_updates st ! i = (e, n, sel)"
      by (cases "pending_updates st ! i") auto
    show ?thesis using inv True c UpdateResponse
      by (cases sel; cases "selectedConversation st")
         (auto simp: update_response_def handleRenameSubmit_resume_def selection_effect_def
            Let_def)
  next
    case False
    then show ?thesis using inv UpdateResponse by (simp add: update_response_def)
  qed
qed (auto simp: loadConversations_def handleConversationClick_def selection_effect_def
      loadMessages_call_def interval_tick_def messages_response_def loadMessages_resume_def
      handleRenameStart_def handleRenameSubmit_call_def handleRenameCancel_def
      split: sum.splits option.splits)

lemma run_interval:
  "thread_interval st = map_option session_id (selectedConversation st) \<Longrightarrow>
   thread_interval (run json_parse json_stringify st evs) =
     map_option session_id (selectedConversation (run json_parse json_stringify st evs))"
  unfolding run_def
  by (induction evs arbitrary: st) (simp_all add: step_interval)

lemma interval_follows_selection:
  "thread_interval (run json_parse json_stringify (initial_state rows) evs) =
     map_option session_id
       (selectedConversation (run json_parse json_stringify (initial_state rows) evs))"
  by (rule run_interval) (simp add: initial_state_def)

end
